theory Spec2Isabelle
  imports Main "HOL-Library.Sublist"
begin

section \<open>Data model\<close>

text \<open>
  The values that \<^verbatim>\<open>json.load\<close> returns and \<^verbatim>\<open>json.dump\<close> accepts. A JSON object is a
  Python dict with string keys; it is kept as an association list in insertion order, and
  a key is looked up with \<open>map_of\<close>. Numbers are carried as integers: no operation of the
  program looks inside a number.
\<close>

datatype json =
    JNull
  | JBool bool
  | JNum int
  | JStr string
  | JArr "json list"
  | JObj "(string \<times> json) list"

text \<open>The exceptions that escape a function of the program.\<close>

datatype py_error = KeyError | TypeError | AttributeError

text \<open>
  The file \<^verbatim>\<open>history.json\<close> as the program observes it: \<open>Missing\<close> when
  \<^verbatim>\<open>os.path.exists\<close> is false, \<open>Corrupt\<close> when the file exists and opening it or
  \<^verbatim>\<open>json.load\<close> raises, \<open>Stored v\<close> when \<^verbatim>\<open>json.load\<close> returns \<open>v\<close>. Writing
  \<^verbatim>\<open>json.dump(v, f)\<close> leaves the file in the state \<open>Stored v\<close>; the file is taken to be
  writable.
\<close>

datatype storage = Missing | Corrupt | Stored json

text \<open>
  A reading of \<^verbatim>\<open>datetime.datetime.now()\<close>. \<^verbatim>\<open>strftime\<close> is modelled for the two
  formats the program uses, for the four-digit years a running clock gives.
\<close>

record datetime =
  year :: nat
  month :: nat
  day :: nat
  hour :: nat
  minute :: nat
  second :: nat

definition digit :: "nat \<Rightarrow> char" where
  "digit n = ''0123456789'' ! (n mod 10)"

definition d2 :: "nat \<Rightarrow> string" where
  "d2 n = [digit (n div 10), digit n]"

definition d4 :: "nat \<Rightarrow> string" where
  "d4 n = [digit (n div 1000), digit (n div 100), digit (n div 10), digit n]"

definition strftime_id :: "datetime \<Rightarrow> string" where
  \<comment> \<open>\<^verbatim>\<open>strftime("%Y%m%d%H%M%S")\<close>\<close>
  "strftime_id t = d4 (year t) @ d2 (month t) @ d2 (day t) @ d2 (hour t) @ d2 (minute t) @ d2 (second t)"

definition strftime_date :: "datetime \<Rightarrow> string" where
  \<comment> \<open>\<^verbatim>\<open>strftime("%Y-%m-%d %H:%M")\<close>\<close>
  "strftime_date t =
     d4 (year t) @ ''-'' @ d2 (month t) @ ''-'' @ d2 (day t) @ '' '' @ d2 (hour t) @ '':'' @ d2 (minute t)"

section \<open>The history store\<close>

text \<open>\<^verbatim>\<open>d.get(k, default)\<close> on a Python dict.\<close>

definition dict_get :: "(string \<rightharpoonup> json) \<Rightarrow> string \<Rightarrow> json \<Rightarrow> json" where
  "dict_get d k dflt = (case d k of None \<Rightarrow> dflt | Some v \<Rightarrow> v)"

text \<open>The dict literal \<^verbatim>\<open>report_entry\<close>; the clock is read once for each of the two fields.\<close>

definition report_entry :: "datetime \<Rightarrow> datetime \<Rightarrow> (string \<rightharpoonup> json) \<Rightarrow> json" where
  "report_entry now1 now2 report_data = JObj
     [(''id'', JStr (strftime_id now1)),
      (''date'', JStr (strftime_date now2)),
      (''type'', dict_get report_data ''type'' (JStr ''Unknown'')),
      (''summary'', dict_get report_data ''summary'' (JStr ''No summary'')),
      (''full_report'', dict_get report_data ''full_report'' (JStr ''''))]"

text \<open>
  \<^verbatim>\<open>save_report_to_history\<close>. The value read from the file is whatever \<^verbatim>\<open>json.load\<close>
  returned; \<^verbatim>\<open>history.insert(0, report_entry)\<close> exists on a list only and raises
  \<^verbatim>\<open>AttributeError\<close> on every other JSON value, before the file is opened for writing.
\<close>

definition save_report_to_history ::
    "datetime \<Rightarrow> datetime \<Rightarrow> (string \<rightharpoonup> json) \<Rightarrow> storage \<Rightarrow> (py_error + unit) \<times> storage" where
  "save_report_to_history now1 now2 report_data st =
     (let history = (case st of Missing \<Rightarrow> JArr [] | Corrupt \<Rightarrow> JArr [] | Stored v \<Rightarrow> v);
          entry = report_entry now1 now2 report_data
      in case history of
           JArr xs \<Rightarrow> (Inr (), Stored (JArr (entry # xs)))
         | _ \<Rightarrow> (Inl AttributeError, st))"

text \<open>
  \<^verbatim>\<open>load_history\<close>. The bare \<^verbatim>\<open>except\<close> encloses everything that can raise, so the
  function has no error result.
\<close>

definition load_history :: "storage \<Rightarrow> json" where
  "load_history st = (case st of Missing \<Rightarrow> JArr [] | Corrupt \<Rightarrow> JArr [] | Stored v \<Rightarrow> v)"

text \<open>
  \<^verbatim>\<open>for item in history\<close>: a list yields its elements, a dict its keys, a string its
  characters; the other JSON values are not iterable.
\<close>

fun py_iter :: "json \<Rightarrow> py_error + json list" where
  "py_iter (JArr xs) = Inr xs"
| "py_iter (JObj kvs) = Inr (map (\<lambda>kv. JStr (fst kv)) kvs)"
| "py_iter (JStr s) = Inr (map (\<lambda>c. JStr [c]) s)"
| "py_iter JNull = Inl TypeError"
| "py_iter (JBool b) = Inl TypeError"
| "py_iter (JNum n) = Inl TypeError"

text \<open>\<^verbatim>\<open>item["id"]\<close>: a dict without the key raises \<^verbatim>\<open>KeyError\<close>, a non-dict \<^verbatim>\<open>TypeError\<close>.\<close>

fun item_id :: "json \<Rightarrow> py_error + json" where
  "item_id (JObj kvs) = (case map_of kvs ''id'' of None \<Rightarrow> Inl KeyError | Some v \<Rightarrow> Inr v)"
| "item_id (JArr xs) = Inl TypeError"
| "item_id (JStr s) = Inl TypeError"
| "item_id JNull = Inl TypeError"
| "item_id (JBool b) = Inl TypeError"
| "item_id (JNum n) = Inl TypeError"

text \<open>
  The comprehension \<^verbatim>\<open>[item for item in history if item["id"] != report_id]\<close>, items taken
  from the left; the first item whose subscript raises ends it. \<open>report_id\<close> is a string,
  and a Python string equals a string only.
\<close>

fun keep_items :: "string \<Rightarrow> json list \<Rightarrow> py_error + json list" where
  "keep_items report_id [] = Inr []"
| "keep_items report_id (item # items) =
     (case item_id item of
        Inl e \<Rightarrow> Inl e
      | Inr v \<Rightarrow>
          (case keep_items report_id items of
             Inl e \<Rightarrow> Inl e
           | Inr kept \<Rightarrow> Inr (if v \<noteq> JStr report_id then item # kept else kept)))"

text \<open>\<^verbatim>\<open>delete_report\<close>: an exception leaves the file as it was, since the file is opened
  for writing after the comprehension.\<close>

definition delete_report :: "string \<Rightarrow> storage \<Rightarrow> (py_error + unit) \<times> storage" where
  "delete_report report_id st =
     (let history = load_history st
      in case py_iter history of
           Inl e \<Rightarrow> (Inl e, st)
         | Inr items \<Rightarrow>
             (case keep_items report_id items of
                Inl e \<Rightarrow> (Inl e, st)
              | Inr new_history \<Rightarrow> (Inr (), Stored (JArr new_history))))"

text \<open>
  A well-formed history entry is an object with an \<open>id\<close> field; \<open>entry_has_id\<close> says
  that the field holds the given string. \<open>obj_get\<close> and \<open>obj_keys\<close> read an object.
\<close>

definition well_formed_entry :: "json \<Rightarrow> bool" where
  "well_formed_entry e = (case e of JObj kvs \<Rightarrow> map_of kvs ''id'' \<noteq> None | _ \<Rightarrow> False)"

definition entry_has_id :: "string \<Rightarrow> json \<Rightarrow> bool" where
  "entry_has_id report_id e = (item_id e = Inr (JStr report_id))"

definition obj_get :: "json \<Rightarrow> string \<Rightarrow> json option" where
  "obj_get e k = (case e of JObj kvs \<Rightarrow> map_of kvs k | _ \<Rightarrow> None)"

definition obj_keys :: "json \<Rightarrow> string list" where
  "obj_keys e = (case e of JObj kvs \<Rightarrow> map fst kvs | _ \<Rightarrow> [])"

definition is_array :: "json \<Rightarrow> bool" where
  "is_array v = (case v of JArr xs \<Rightarrow> True | _ \<Rightarrow> False)"

text \<open>Two clock readings and a report used in the concrete instances below.\<close>

definition noon :: datetime where
  "noon = \<lparr>year = 2024, month = 3, day = 7, hour = 12, minute = 0, second = 5\<rparr>"

definition later :: datetime where
  "later = \<lparr>year = 2024, month = 3, day = 7, hour = 12, minute = 1, second = 9\<rparr>"

definition simple_report :: "string \<rightharpoonup> json" where
  "simple_report =
     [''type'' \<mapsto> JStr ''Simple Audit'', ''summary'' \<mapsto> JStr ''Simple Bill Analysis'',
      ''full_report'' \<mapsto> JStr ''REPORT-X'']"

definition partial_report :: "string \<rightharpoonup> json" where
  "partial_report = [''summary'' \<mapsto> JStr ''Only a summary'', ''id'' \<mapsto> JStr ''mine'']"

text \<open>The file after two reports were saved within one second of the clock.\<close>

definition same_second_history :: storage where
  "same_second_history =
     snd (save_report_to_history noon noon partial_report
       (snd (save_report_to_history noon noon simple_report Missing)))"

section \<open>Prompt construction and the remote model\<close>

text \<open>
  The fixed text of the f-string in \<^verbatim>\<open>analyze_image_with_gemini\<close>, one literal for each
  source line: up to the task, between the task and the appliance section, and after it.
\<close>

definition prompt_head :: string where
  "prompt_head = concat
     [''\<newline>'',
      ''        You are an expert Energy Auditor in Morocco. \<newline>'',
      ''        Your goal is to analyze energy bills and consumption based on Moroccan Norms (AMEE, ONEE).\<newline>'',
      ''        Currency is Moroccan Dirham (MAD). Voltage is 220V/380V.\<newline>'',
      ''        \<newline>'',
      ''        TASK:\<newline>'',
      ''        '']"

definition prompt_mid :: string where
  "prompt_mid = concat
     [''\<newline>'',
      ''        \<newline>'',
      ''        '']"

definition prompt_tail :: string where
  "prompt_tail = concat
     [''\<newline>'',
      ''        \<newline>'',
      ''        Please provide the response in structured Markdown format with clear headings.\<newline>'',
      ''        Include specific recommendations for energy efficiency in Morocco.\<newline>'',
      ''        '']"

text \<open>The task texts of the two pages.\<close>

definition simple_prompt :: string where
  "simple_prompt = concat
     [''\<newline>'',
      ''                    1. Extract the total consumption (kWh).\<newline>'',
      ''                    2. Extract the total amount (MAD).\<newline>'',
      ''                    3. Identify the billing period.\<newline>'',
      ''                    4. Analyze if the consumption is high for a standard household in Morocco.\<newline>'',
      ''                    5. Provide 3 specific recommendations to reduce this bill.\<newline>'',
      ''                    '']"

definition detailed_prompt :: string where
  "detailed_prompt = concat
     [''\<newline>'',
      ''                1. Extract total consumption (kWh) and cost (MAD) from the uploaded bill.\<newline>'',
      ''                2. Analyze the provided appliance list.\<newline>'',
      ''                3. Estimate the theoretical consumption of these appliances.\<newline>'',
      ''                4. Compare the theoretical consumption with the actual bill consumption.\<newline>'',
      ''                5. Identify discrepancies (e.g., hidden consumption, old appliances, insulation issues).\<newline>'',
      ''                6. Provide a detailed action plan to optimize energy use according to Moroccan standards.\<newline>'',
      ''                '']"

definition appliances_label :: string where
  "appliances_label = ''ADDITIONAL DATA PROVIDED BY USER (Appliances):''"

text \<open>
  The f-string. The appliance section is the label followed by \<open>appliances_info\<close> when
  \<open>is_detailed\<close> holds and empty otherwise; with \<open>is_detailed\<close> and the default
  \<^verbatim>\<open>appliances_info=None\<close> the concatenation raises \<^verbatim>\<open>TypeError\<close>, whose text is the
  \<open>Inl\<close> result.
\<close>

definition full_prompt :: "string \<Rightarrow> bool \<Rightarrow> string option \<Rightarrow> string + string" where
  \<open>full_prompt prompt is_detailed appliances_info =
     (if is_detailed then
        (case appliances_info of
           None \<Rightarrow> Inl ''can only concatenate str (not "NoneType") to str''
         | Some info \<Rightarrow> Inr (prompt_head @ prompt @ prompt_mid @ (appliances_label @ info) @ prompt_tail))
      else Inr (prompt_head @ prompt @ prompt_mid @ [] @ prompt_tail))\<close>

text \<open>
  The uploaded image is opaque to the program. The remote model is a function of the
  request: \<open>Inr text\<close> when \<^verbatim>\<open>model.generate_content([full_prompt, image]).text\<close> yields
  \<open>text\<close>, \<open>Inl msg\<close> when the call or the read of \<^verbatim>\<open>.text\<close> raises an exception \<open>e\<close>
  with \<^verbatim>\<open>str(e)\<close> = \<open>msg\<close>. The requests made are logged in order.
\<close>

type_synonym image = string

type_synonym remote_model = "string \<Rightarrow> image \<Rightarrow> string + string"

type_synonym request = "string \<times> image"

text \<open>\<^verbatim>\<open>analyze_image_with_gemini\<close>: the text returned, and the log of requests.\<close>

definition analyze_image_with_gemini ::
    "string \<Rightarrow> remote_model \<Rightarrow> image \<Rightarrow> string \<Rightarrow> bool \<Rightarrow> string option \<Rightarrow> request list
       \<Rightarrow> string \<times> request list" where
  "analyze_image_with_gemini api_key model img prompt is_detailed appliances_info sent =
     (if api_key = [] then (''Error: API Key not provided.'', sent)
      else
        (case full_prompt prompt is_detailed appliances_info of
           Inl e \<Rightarrow> (''Error during analysis: '' @ e, sent)
         | Inr p \<Rightarrow>
             (case model p img of
                Inl e \<Rightarrow> (''Error during analysis: '' @ e, sent @ [(p, img)])
              | Inr text \<Rightarrow> (text, sent @ [(p, img)]))))"

section \<open>The audit pages\<close>

text \<open>
  What a run of a page touches: the history file and the remote model. What it shows in
  answer to its inputs: the calls of \<^verbatim>\<open>st.markdown\<close>, \<^verbatim>\<open>st.success\<close>, \<^verbatim>\<open>st.error\<close>
  and \<^verbatim>\<open>st.info\<close> in the branches on the upload and the button, in order. The fixed
  titles and input widgets drawn before them are left out.
\<close>

record world =
  history_file :: storage
  requests :: "request list"

datatype ui = StMarkdown string | StSuccess string | StError string | StInfo string

definition chart_emoji :: string where
  \<comment> \<open>U+1F4CA in UTF-8\<close>
  "chart_emoji = [CHR 0xF0, CHR 0x9F, CHR 0x93, CHR 0x8A]"

text \<open>
  The result column of the Simple Audit page. \<open>uploaded\<close> is the uploaded file, opened as
  an image; \<open>clicked\<close> is the value of the button. An exception of
  \<open>save_report_to_history\<close> ends the run.
\<close>

definition simple_audit_page ::
    "string \<Rightarrow> remote_model \<Rightarrow> datetime \<Rightarrow> datetime \<Rightarrow> image option \<Rightarrow> bool \<Rightarrow> world
       \<Rightarrow> (ui list \<times> py_error option) \<times> world" where
  "simple_audit_page api_key model now1 now2 uploaded clicked w =
     (case uploaded of
        None \<Rightarrow> (([StInfo ''Please upload an image to start.''], None), w)
      | Some img \<Rightarrow>
          if clicked then
            (let (result, sent) =
                   analyze_image_with_gemini api_key model img simple_prompt False None (requests w);
                 shown = [StMarkdown (''### '' @ chart_emoji @ '' Report''), StMarkdown result]
             in if result \<noteq> [] then
                  (case save_report_to_history now1 now2
                          [''type'' \<mapsto> JStr ''Simple Audit'',
                           ''summary'' \<mapsto> JStr ''Simple Bill Analysis'',
                           ''full_report'' \<mapsto> JStr result]
                          (history_file w) of
                     (Inl e, st) \<Rightarrow> ((shown, Some e), \<lparr>history_file = st, requests = sent\<rparr>)
                   | (Inr u, st) \<Rightarrow>
                       ((shown @ [StSuccess ''Report saved to History!''], None),
                        \<lparr>history_file = st, requests = sent\<rparr>))
                else ((shown, None), \<lparr>history_file = history_file w, requests = sent\<rparr>))
          else (([], None), w))"

text \<open>The button of the Detailed Audit page; \<open>appliance_info\<close> is the text area's value.\<close>

definition detailed_audit_page ::
    "string \<Rightarrow> remote_model \<Rightarrow> datetime \<Rightarrow> datetime \<Rightarrow> image option \<Rightarrow> string \<Rightarrow> bool \<Rightarrow> world
       \<Rightarrow> (ui list \<times> py_error option) \<times> world" where
  "detailed_audit_page api_key model now1 now2 uploaded appliance_info clicked w =
     (if clicked then
        (case uploaded of
           None \<Rightarrow> (([StError ''Please upload a bill image.''], None), w)
         | Some img \<Rightarrow>
             if appliance_info \<noteq> [] then
               (let (result, sent) =
                      analyze_image_with_gemini api_key model img detailed_prompt True
                        (Some appliance_info) (requests w);
                    shown = [StMarkdown (''### '' @ chart_emoji @ '' Detailed Report''), StMarkdown result]
                in if result \<noteq> [] then
                     (case save_report_to_history now1 now2
                             [''type'' \<mapsto> JStr ''Detailed Audit'',
                              ''summary'' \<mapsto> JStr ''Detailed Analysis with Appliances'',
                              ''full_report'' \<mapsto> JStr result]
                             (history_file w) of
                        (Inl e, st) \<Rightarrow> ((shown, Some e), \<lparr>history_file = st, requests = sent\<rparr>)
                      | (Inr u, st) \<Rightarrow>
                          ((shown @ [StSuccess ''Detailed Report saved to History!''], None),
                           \<lparr>history_file = st, requests = sent\<rparr>))
                   else ((shown, None), \<lparr>history_file = history_file w, requests = sent\<rparr>))
             else (([StError ''Please enter appliance information.''], None), w))
      else (([], None), w))"

text \<open>
  \<open>persisted_as ty result xs st\<close>: the file holds a sequence whose first entry has the
  type \<open>ty\<close> and the report text \<open>result\<close>, followed by \<open>xs\<close>.
\<close>

definition persisted_as :: "string \<Rightarrow> string \<Rightarrow> json list \<Rightarrow> storage \<Rightarrow> bool" where
  "persisted_as ty result xs st =
     (case st of
        Stored (JArr (e # rest)) \<Rightarrow>
          rest = xs \<and> obj_get e ''type'' = Some (JStr ty) \<and> obj_get e ''full_report'' = Some (JStr result)
      | _ \<Rightarrow> False)"

text \<open>A remote model whose every call fails, one that answers, and a fresh world.\<close>

definition failing_model :: remote_model where
  "failing_model p img = Inl ''503 service unavailable''"

definition answering_model :: remote_model where
  "answering_model p img = Inr ''REPORT-X''"

definition fresh_world :: world where
  "fresh_world = \<lparr>history_file = Missing, requests = []\<rparr>"

text \<open>The prompts that the two pages send: the value of the f-string for each.\<close>

definition simple_request :: string where
  "simple_request = prompt_head @ simple_prompt @ prompt_mid @ prompt_tail"

definition detailed_request :: "string \<Rightarrow> string" where
  "detailed_request info =
     prompt_head @ detailed_prompt @ prompt_mid @ (appliances_label @ info) @ prompt_tail"

text \<open>An entry that already has all five fields, as an object and as the dict passed to the store.\<close>

definition full_entry_fields :: "(string \<times> json) list" where
  "full_entry_fields =
     [(''id'', JStr ''mine''),
      (''date'', JStr ''2020-01-01 00:00''),
      (''type'', JStr ''Simple Audit''),
      (''summary'', JStr ''Simple Bill Analysis''),
      (''full_report'', JStr ''REPORT-X'')]"

section \<open>Loading\<close>

text \<open>
  C4. When the history file is missing, or exists and cannot be read or parsed,
  \<open>load_history\<close> returns the empty list; it has no error result in either case.
\<close>

theorem load_history_missing_or_corrupt:
  "load_history Missing = JArr [] \<and> load_history Corrupt = JArr []"
  by (simp add: load_history_def)

lemma strftime_id_noon: "strftime_id noon = ''20240307120005''"
  by (simp add: strftime_id_def noon_def d4_def d2_def digit_def)

lemma strftime_date_noon: "strftime_date noon = ''2024-03-07 12:00''"
  by (simp add: strftime_date_def noon_def d4_def d2_def digit_def)

lemma strftime_id_later: "strftime_id later = ''20240307120109''"
  by (simp add: strftime_id_def later_def d4_def d2_def digit_def)

lemma strftime_date_later: "strftime_date later = ''2024-03-07 12:01''"
  by (simp add: strftime_date_def later_def d4_def d2_def digit_def)

text \<open>
  C9. If the file holds valid JSON that is not an array, \<open>load_history\<close> returns that value
  as it is, and \<open>save_report_to_history\<close> on that file raises (\<^verbatim>\<open>AttributeError\<close>, from
  \<^verbatim>\<open>history.insert\<close>) and leaves the file as it was.
\<close>

theorem load_history_non_array:
  assumes "\<not> is_array v"
  shows "load_history (Stored v) = v
       \<and> save_report_to_history now1 now2 report_data (Stored v) = (Inl AttributeError, Stored v)"
  using assms
  by (cases v) (simp_all add: load_history_def save_report_to_history_def is_array_def)

theorem load_history_non_array_witness:
  "\<not> is_array (JObj [(''a'', JNum 1)])
   \<and> load_history (Stored (JObj [(''a'', JNum 1)])) = JObj [(''a'', JNum 1)]
   \<and> save_report_to_history noon later simple_report (Stored (JObj [(''a'', JNum 1)]))
       = (Inl AttributeError, Stored (JObj [(''a'', JNum 1)]))"
proof -
  have h: "\<not> is_array (JObj [(''a'', JNum 1)])"
    by (simp add: is_array_def)
  show ?thesis
    using h load_history_non_array [OF h, of noon later simple_report] by simp
qed

section \<open>Appending\<close>

text \<open>
  C3, as stated, fails: the store does not file the entry it is given. Handed an entry
  with all five fields, \<open>save_report_to_history\<close> files one with its own \<open>id\<close> and \<open>date\<close>,
  so the first element loaded afterwards differs from the entry that was appended.
\<close>

theorem save_then_load_first_counterexample:
  "load_history (snd (save_report_to_history noon later (map_of full_entry_fields) Missing))
     = JArr [JObj
         [(''id'', JStr ''20240307120005''),
          (''date'', JStr ''2024-03-07 12:01''),
          (''type'', JStr ''Simple Audit''),
          (''summary'', JStr ''Simple Bill Analysis''),
          (''full_report'', JStr ''REPORT-X'')]]
   \<and> JObj
         [(''id'', JStr ''20240307120005''),
          (''date'', JStr ''2024-03-07 12:01''),
          (''type'', JStr ''Simple Audit''),
          (''summary'', JStr ''Simple Bill Analysis''),
          (''full_report'', JStr ''REPORT-X'')]
       \<noteq> JObj full_entry_fields"
  by (simp add: save_report_to_history_def load_history_def report_entry_def dict_get_def
      full_entry_fields_def strftime_id_noon strftime_date_later)

text \<open>
  C3, amended. When the file loads as a sequence (also when it is missing or unreadable,
  which loads as the empty one), \<open>save_report_to_history\<close> succeeds, and loading afterwards
  returns a new entry first, followed by the sequence loaded before. The new entry has
  the five fields; its \<open>type\<close>, \<open>summary\<close> and \<open>full_report\<close> are those of the dictionary
  appended (the defaults where it has none), and its \<open>id\<close> and \<open>date\<close> are the clock's at
  the time of the save, not the dictionary's.
\<close>

theorem save_then_load_first_entry:
  assumes "load_history st = JArr xs"
  shows "fst (save_report_to_history now1 now2 report_data st) = Inr ()
       \<and> (\<exists>e. load_history (snd (save_report_to_history now1 now2 report_data st)) = JArr (e # xs)
            \<and> obj_keys e = [''id'', ''date'', ''type'', ''summary'', ''full_report'']
            \<and> obj_get e ''type'' =
                Some (case report_data ''type'' of None \<Rightarrow> JStr ''Unknown'' | Some v \<Rightarrow> v)
            \<and> obj_get e ''summary'' =
                Some (case report_data ''summary'' of None \<Rightarrow> JStr ''No summary'' | Some v \<Rightarrow> v)
            \<and> obj_get e ''full_report'' =
                Some (case report_data ''full_report'' of None \<Rightarrow> JStr '''' | Some v \<Rightarrow> v)
            \<and> obj_get e ''id'' = Some (JStr (strftime_id now1))
            \<and> obj_get e ''date'' = Some (JStr (strftime_date now2)))"
proof -
  let ?e = "report_entry now1 now2 report_data"
  have s: "save_report_to_history now1 now2 report_data st = (Inr (), Stored (JArr (?e # xs)))"
    using assms by (cases st) (simp_all add: load_history_def save_report_to_history_def)
  have l: "load_history (snd (save_report_to_history now1 now2 report_data st)) = JArr (?e # xs)"
    by (simp add: s load_history_def)
  have f: "obj_keys ?e = [''id'', ''date'', ''type'', ''summary'', ''full_report'']
         \<and> obj_get ?e ''type'' =
             Some (case report_data ''type'' of None \<Rightarrow> JStr ''Unknown'' | Some v \<Rightarrow> v)
         \<and> obj_get ?e ''summary'' =
             Some (case report_data ''summary'' of None \<Rightarrow> JStr ''No summary'' | Some v \<Rightarrow> v)
         \<and> obj_get ?e ''full_report'' =
             Some (case report_data ''full_report'' of None \<Rightarrow> JStr '''' | Some v \<Rightarrow> v)
         \<and> obj_get ?e ''id'' = Some (JStr (strftime_id now1))
         \<and> obj_get ?e ''date'' = Some (JStr (strftime_date now2))"
    by (simp add: report_entry_def obj_keys_def obj_get_def dict_get_def)
  from s l f show ?thesis
    by (intro conjI exI [of _ ?e]) simp_all
qed

theorem save_then_load_first_entry_witness:
  "load_history (Stored (JArr [JObj [(''id'', JStr ''20240101101010'')]]))
     = JArr [JObj [(''id'', JStr ''20240101101010'')]]
   \<and> fst (save_report_to_history noon later (map_of full_entry_fields)
            (Stored (JArr [JObj [(''id'', JStr ''20240101101010'')]]))) = Inr ()
   \<and> (\<exists>e. load_history (snd (save_report_to_history noon later (map_of full_entry_fields)
                 (Stored (JArr [JObj [(''id'', JStr ''20240101101010'')]]))))
              = JArr [e, JObj [(''id'', JStr ''20240101101010'')]]
          \<and> obj_keys e = [''id'', ''date'', ''type'', ''summary'', ''full_report'']
          \<and> obj_get e ''type'' = Some (JStr ''Simple Audit'')
          \<and> obj_get e ''summary'' = Some (JStr ''Simple Bill Analysis'')
          \<and> obj_get e ''full_report'' = Some (JStr ''REPORT-X'')
          \<and> obj_get e ''id'' = Some (JStr ''20240307120005'')
          \<and> obj_get e ''date'' = Some (JStr ''2024-03-07 12:01''))"
proof -
  have h: "load_history (Stored (JArr [JObj [(''id'', JStr ''20240101101010'')]]))
             = JArr [JObj [(''id'', JStr ''20240101101010'')]]"
    by (simp add: load_history_def)
  show ?thesis
    using h save_then_load_first_entry [OF h, of noon later "map_of full_entry_fields"]
    by (simp add: full_entry_fields_def strftime_id_noon strftime_date_later)
qed

text \<open>
  C10. Whatever dictionary is passed, a successful \<open>save_report_to_history\<close> persists at the
  front an entry with exactly the five fields \<open>id\<close>, \<open>date\<close>, \<open>type\<close>, \<open>summary\<close> and
  \<open>full_report\<close>. \<open>id\<close> and \<open>date\<close> are the formatted clock readings, also when the
  dictionary has keys of these names; each of the other three is the dictionary's value,
  or its default (\<open>Unknown\<close>, \<open>No summary\<close>, the empty string) when the key is missing.
\<close>

theorem saved_entry_fields:
  assumes "load_history st = JArr xs"
  shows "\<exists>e. save_report_to_history now1 now2 report_data st = (Inr (), Stored (JArr (e # xs)))
     \<and> obj_keys e = [''id'', ''date'', ''type'', ''summary'', ''full_report'']
     \<and> obj_get e ''id'' = Some (JStr (strftime_id now1))
     \<and> obj_get e ''date'' = Some (JStr (strftime_date now2))
     \<and> obj_get e ''type'' = Some (case report_data ''type'' of None \<Rightarrow> JStr ''Unknown'' | Some v \<Rightarrow> v)
     \<and> obj_get e ''summary'' =
         Some (case report_data ''summary'' of None \<Rightarrow> JStr ''No summary'' | Some v \<Rightarrow> v)
     \<and> obj_get e ''full_report'' =
         Some (case report_data ''full_report'' of None \<Rightarrow> JStr '''' | Some v \<Rightarrow> v)"
proof -
  have s: "save_report_to_history now1 now2 report_data st
             = (Inr (), Stored (JArr (report_entry now1 now2 report_data # xs)))"
    using assms by (cases st) (simp_all add: load_history_def save_report_to_history_def)
  show ?thesis
    unfolding s
    by (rule exI [of _ "report_entry now1 now2 report_data"])
       (simp add: report_entry_def obj_keys_def obj_get_def dict_get_def)
qed

theorem saved_entry_fields_witness:
  "load_history Missing = JArr []
   \<and> (\<exists>e. save_report_to_history noon later partial_report Missing = (Inr (), Stored (JArr [e]))
     \<and> obj_keys e = [''id'', ''date'', ''type'', ''summary'', ''full_report'']
     \<and> obj_get e ''id'' = Some (JStr ''20240307120005'')
     \<and> obj_get e ''date'' = Some (JStr ''2024-03-07 12:01'')
     \<and> obj_get e ''type'' = Some (JStr ''Unknown'')
     \<and> obj_get e ''summary'' = Some (JStr ''Only a summary'')
     \<and> obj_get e ''full_report'' = Some (JStr ''''))"
proof -
  have h: "load_history Missing = JArr []"
    by (simp add: load_history_def)
  show ?thesis
    using h saved_entry_fields [OF h, of noon later partial_report]
    by (simp add: partial_report_def strftime_id_noon strftime_date_later)
qed

section \<open>Deleting\<close>

lemma keep_items_filter:
  "\<forall>e \<in> set xs. well_formed_entry e \<Longrightarrow>
   keep_items report_id xs = Inr (filter (\<lambda>e. \<not> entry_has_id report_id e) xs)"
proof (induction xs)
  case Nil
  show ?case by simp
next
  case (Cons x xs)
  from Cons.prems have wf: "well_formed_entry x" by simp
  then obtain kvs v where x: "x = JObj kvs" and v: "map_of kvs ''id'' = Some v"
    by (cases x) (auto simp: well_formed_entry_def)
  from Cons have ih: "keep_items report_id xs = Inr (filter (\<lambda>e. \<not> entry_has_id report_id e) xs)"
    by simp
  show ?case
    by (simp add: x v ih entry_has_id_def)
qed

lemma keep_items_kept:
  "keep_items report_id xs = Inr ys \<Longrightarrow> keep_items report_id ys = Inr ys"
proof (induction xs arbitrary: ys)
  case Nil
  then show ?case by simp
next
  case (Cons x xs)
  from Cons.prems obtain v kept where v: "item_id x = Inr v"
    and kept: "keep_items report_id xs = Inr kept"
    and ys: "ys = (if v \<noteq> JStr report_id then x # kept else kept)"
    by (auto split: sum.splits)
  from Cons.IH [OF kept] have ih: "keep_items report_id kept = Inr kept" .
  show ?case
    by (simp add: ys ih v)
qed

lemma same_second_history_eq:
  "same_second_history =
     Stored (JArr [report_entry noon noon partial_report, report_entry noon noon simple_report])"
  by (simp add: same_second_history_def save_report_to_history_def)

lemma entry_has_id_report_entry:
  "entry_has_id report_id (report_entry now1 now2 report_data) = (report_id = strftime_id now1)"
  by (auto simp: entry_has_id_def report_entry_def)

lemma well_formed_report_entry: "well_formed_entry (report_entry now1 now2 report_data)"
  by (simp add: well_formed_entry_def report_entry_def)

text \<open>
  C2, as stated, fails: two reports saved within the same second carry the same \<open>id\<close>, and
  deleting that \<open>id\<close> removes both of them, not exactly one.
\<close>

theorem delete_report_exactly_one_counterexample:
  "load_history same_second_history
     = JArr [report_entry noon noon partial_report, report_entry noon noon simple_report]
   \<and> entry_has_id ''20240307120005'' (report_entry noon noon partial_report)
   \<and> entry_has_id ''20240307120005'' (report_entry noon noon simple_report)
   \<and> delete_report ''20240307120005'' same_second_history = (Inr (), Stored (JArr []))"
proof -
  have l: "load_history same_second_history
     = JArr [report_entry noon noon partial_report, report_entry noon noon simple_report]"
    by (simp add: same_second_history_eq load_history_def)
  have i: "entry_has_id ''20240307120005'' (report_entry noon noon report_data)" for report_data
    by (simp add: entry_has_id_report_entry strftime_id_noon)
  have d: "delete_report ''20240307120005'' same_second_history = (Inr (), Stored (JArr []))"
    by (simp add: delete_report_def l report_entry_def strftime_id_noon)
  from l i d show ?thesis by simp
qed

text \<open>
  C2, amended. On a stored sequence of entries that each have an \<open>id\<close> field,
  \<open>delete_report\<close> does not raise and stores the sequence without every entry whose \<open>id\<close>
  is the given one, the others unchanged and in their order. That is one entry less when
  exactly one entry has the \<open>id\<close>, and the same sequence when none has.
\<close>

theorem delete_report_removes_matching:
  assumes "\<forall>e \<in> set xs. well_formed_entry e"
  shows "delete_report report_id (Stored (JArr xs))
           = (Inr (), Stored (JArr (filter (\<lambda>e. \<not> entry_has_id report_id e) xs)))
       \<and> (length (filter (entry_has_id report_id) xs) = 1 \<longrightarrow>
            length (filter (\<lambda>e. \<not> entry_has_id report_id e) xs) + 1 = length xs)
       \<and> ((\<forall>e \<in> set xs. \<not> entry_has_id report_id e) \<longrightarrow>
            delete_report report_id (Stored (JArr xs)) = (Inr (), Stored (JArr xs)))"
proof -
  have k: "keep_items report_id xs = Inr (filter (\<lambda>e. \<not> entry_has_id report_id e) xs)"
    using assms by (rule keep_items_filter)
  have d: "delete_report report_id (Stored (JArr xs))
           = (Inr (), Stored (JArr (filter (\<lambda>e. \<not> entry_has_id report_id e) xs)))"
    by (simp add: delete_report_def load_history_def k)
  have l: "length (filter (entry_has_id report_id) xs)
           + length (filter (\<lambda>e. \<not> entry_has_id report_id e) xs) = length xs"
    by (rule sum_length_filter_compl)
  have n: "(\<forall>e \<in> set xs. \<not> entry_has_id report_id e) \<longrightarrow>
           filter (\<lambda>e. \<not> entry_has_id report_id e) xs = xs"
    by simp
  from d l n show ?thesis by auto
qed

theorem delete_report_removes_matching_witness:
  "well_formed_entry (report_entry later later partial_report)
   \<and> well_formed_entry (report_entry noon noon simple_report)
   \<and> length (filter (entry_has_id ''20240307120005'')
        [report_entry later later partial_report, report_entry noon noon simple_report]) = 1
   \<and> delete_report ''20240307120005''
        (Stored (JArr [report_entry later later partial_report, report_entry noon noon simple_report]))
       = (Inr (), Stored (JArr [report_entry later later partial_report]))
   \<and> \<not> entry_has_id ''19991231235959'' (report_entry later later partial_report)
   \<and> \<not> entry_has_id ''19991231235959'' (report_entry noon noon simple_report)
   \<and> delete_report ''19991231235959''
        (Stored (JArr [report_entry later later partial_report, report_entry noon noon simple_report]))
       = (Inr (), Stored (JArr [report_entry later later partial_report, report_entry noon noon simple_report]))"
proof -
  have h: "\<forall>e \<in> set [report_entry later later partial_report, report_entry noon noon simple_report].
       well_formed_entry e"
    by (simp add: well_formed_report_entry)
  show ?thesis
    using h delete_report_removes_matching [OF h, of "''20240307120005''"]
      delete_report_removes_matching [OF h, of "''19991231235959''"]
    by (simp add: entry_has_id_report_entry strftime_id_noon strftime_id_later)
qed

text \<open>
  C8. Deleting the same \<open>id\<close> a second time gives the outcome and the file of the first
  deletion, from every state of the file.
\<close>

theorem delete_report_idempotent:
  "delete_report report_id (snd (delete_report report_id st)) = delete_report report_id st"
proof (cases "py_iter (load_history st)")
  case (Inl e)
  then show ?thesis by (simp add: delete_report_def)
next
  case (Inr items)
  show ?thesis
  proof (cases "keep_items report_id items")
    case (Inl e)
    with Inr show ?thesis by (simp add: delete_report_def)
  next
    case inr: (Inr new_history)
    from keep_items_kept [OF inr] Inr inr show ?thesis
      by (simp add: delete_report_def load_history_def)
  qed
qed

section \<open>Prompts\<close>

lemma analyze_sends:
  assumes "api_key \<noteq> []" and "full_prompt prompt is_detailed appliances_info = Inr p"
  shows "snd (analyze_image_with_gemini api_key model img prompt is_detailed appliances_info sent)
           = sent @ [(p, img)]"
  using assms by (simp add: analyze_image_with_gemini_def split: sum.splits)

lemma analyze_text:
  assumes "api_key \<noteq> []" and "full_prompt prompt is_detailed appliances_info = Inr p"
  shows "fst (analyze_image_with_gemini api_key model img prompt is_detailed appliances_info sent)
           = (case model p img of Inl e \<Rightarrow> ''Error during analysis: '' @ e | Inr text \<Rightarrow> text)"
  using assms by (simp add: analyze_image_with_gemini_def split: sum.splits)

lemma full_prompt_simple: "full_prompt simple_prompt False appliances_info = Inr simple_request"
  by (simp add: full_prompt_def simple_request_def)

lemma full_prompt_detailed:
  "full_prompt detailed_prompt True (Some info) = Inr (detailed_request info)"
  by (simp add: full_prompt_def detailed_request_def)

lemma simple_page_world:
  "snd (simple_audit_page api_key model now1 now2 (Some img) True w) =
     (let r = analyze_image_with_gemini api_key model img simple_prompt False None (requests w)
      in \<lparr>history_file =
            (if fst r = [] then history_file w
             else snd (save_report_to_history now1 now2
                    [''type'' \<mapsto> JStr ''Simple Audit'',
                     ''summary'' \<mapsto> JStr ''Simple Bill Analysis'',
                     ''full_report'' \<mapsto> JStr (fst r)]
                    (history_file w))),
          requests = snd r\<rparr>)"
  by (simp add: simple_audit_page_def Let_def split: prod.splits sum.splits)

lemma detailed_page_world:
  "appliance_info \<noteq> [] \<Longrightarrow>
   snd (detailed_audit_page api_key model now1 now2 (Some img) appliance_info True w) =
     (let r = analyze_image_with_gemini api_key model img detailed_prompt True
                (Some appliance_info) (requests w)
      in \<lparr>history_file =
            (if fst r = [] then history_file w
             else snd (save_report_to_history now1 now2
                    [''type'' \<mapsto> JStr ''Detailed Audit'',
                     ''summary'' \<mapsto> JStr ''Detailed Analysis with Appliances'',
                     ''full_report'' \<mapsto> JStr (fst r)]
                    (history_file w))),
          requests = snd r\<rparr>)"
  by (simp add: detailed_audit_page_def Let_def split: prod.splits sum.splits)

text \<open>
  C6. With an API key, \<open>analyze_image_with_gemini\<close> in detailed mode sends one request, and
  its prompt contains the appliance text \<open>x\<close> as a contiguous substring, for every \<open>x\<close> and
  every task text. The Detailed Audit page, which calls it for a non-empty \<open>x\<close>, sends
  such a request.
\<close>

theorem detailed_prompt_contains_appliance_info:
  assumes "api_key \<noteq> []"
  shows "(\<exists>p. snd (analyze_image_with_gemini api_key model img prompt True (Some x) sent)
               = sent @ [(p, img)] \<and> sublist x p)
       \<and> (x \<noteq> [] \<longrightarrow>
            (\<exists>p. requests (snd (detailed_audit_page api_key model now1 now2 (Some img) x True w))
                   = requests w @ [(p, img)] \<and> sublist x p))"
proof -
  let ?p = "\<lambda>task. prompt_head @ task @ prompt_mid @ (appliances_label @ x) @ prompt_tail"
  have sub: "sublist x (?p task)" for task
  proof -
    have "?p task = (prompt_head @ task @ prompt_mid @ appliances_label) @ x @ prompt_tail"
      by simp
    then show ?thesis
      by (simp only: sublist_appendI)
  qed
  have fp: "full_prompt task True (Some x) = Inr (?p task)" for task
    by (simp add: full_prompt_def)
  have a: "snd (analyze_image_with_gemini api_key model img prompt True (Some x) sent)
             = sent @ [(?p prompt, img)]"
    using assms fp by (rule analyze_sends)
  have b: "requests (snd (detailed_audit_page api_key model now1 now2 (Some img) x True w))
             = requests w @ [(?p detailed_prompt, img)]" if "x \<noteq> []"
    using that analyze_sends [OF assms fp, of model img detailed_prompt "requests w"]
    by (simp add: detailed_page_world Let_def)
  from a b sub show ?thesis by blast
qed

theorem detailed_prompt_contains_appliance_info_witness:
  "''key'' \<noteq> [] \<and> ''1 fridge'' \<noteq> []
   \<and> (\<exists>p. snd (analyze_image_with_gemini ''key'' answering_model ''img'' ''task'' True (Some ''1 fridge'') [])
               = [(p, ''img'')] \<and> sublist ''1 fridge'' p)
   \<and> (\<exists>p. requests (snd (detailed_audit_page ''key'' answering_model noon later (Some ''img'')
                ''1 fridge'' True fresh_world))
               = requests fresh_world @ [(p, ''img'')] \<and> sublist ''1 fridge'' p)"
proof -
  have h: "''key'' \<noteq> []" by simp
  show ?thesis
    using detailed_prompt_contains_appliance_info
      [OF h, of answering_model "''img''" "''task''" "''1 fridge''" "[]" noon later fresh_world]
    by simp
qed

lemma sublist_task_3: "sublist ''5. Provide 3 specific recommendations to reduce this bill.'' simple_request"
  by code_simp

lemma no_appliance_text: "\<not> sublist ''ppliance'' simple_request"
  by code_simp

lemma no_appliance_text_upper: "\<not> sublist ''PPLIANCE'' simple_request"
  by code_simp

text \<open>
  C7. Whatever \<open>appliances_info\<close> is, the prompt built for the simple audit is the fixed text
  \<open>simple_request\<close>: it contains the instruction asking for 3 recommendations, and neither
  the appliance label nor the word appliance in any spelling of its first letter. With an
  API key, the Simple Audit page sends exactly this prompt.
\<close>

theorem simple_prompt_contents:
  "full_prompt simple_prompt False appliances_info = Inr simple_request
   \<and> sublist ''5. Provide 3 specific recommendations to reduce this bill.'' simple_request
   \<and> \<not> sublist ''ppliance'' simple_request
   \<and> \<not> sublist ''PPLIANCE'' simple_request
   \<and> \<not> sublist appliances_label simple_request
   \<and> (api_key \<noteq> [] \<longrightarrow>
        requests (snd (simple_audit_page api_key model now1 now2 (Some img) True w))
          = requests w @ [(simple_request, img)])"
proof -
  have l: "\<not> sublist appliances_label simple_request"
  proof
    assume "sublist appliances_label simple_request"
    moreover have "sublist ''ppliance'' appliances_label"
      by code_simp
    ultimately have "sublist ''ppliance'' simple_request"
      by (rule sublist_order.order.trans [rotated])
    with no_appliance_text show False by simp
  qed
  have r: "requests (snd (simple_audit_page api_key model now1 now2 (Some img) True w))
          = requests w @ [(simple_request, img)]" if "api_key \<noteq> []"
    using analyze_sends [OF that full_prompt_simple, of model img None "requests w"]
    by (simp add: simple_page_world Let_def)
  from full_prompt_simple sublist_task_3 no_appliance_text no_appliance_text_upper l r
  show ?thesis by blast
qed

theorem simple_prompt_contents_witness:
  "''key'' \<noteq> []
   \<and> full_prompt simple_prompt False (Some ''1 fridge'') = Inr simple_request
   \<and> sublist ''5. Provide 3 specific recommendations to reduce this bill.'' simple_request
   \<and> \<not> sublist ''ppliance'' simple_request
   \<and> requests (snd (simple_audit_page ''key'' answering_model noon later (Some ''img'') True fresh_world))
       = requests fresh_world @ [(simple_request, ''img'')]"
proof -
  have h: "''key'' \<noteq> []" by simp
  show ?thesis
    using h simple_prompt_contents
      [of "Some ''1 fridge''" "''key''" answering_model noon later "''img''" fresh_world]
    by simp
qed

section \<open>The audit flows\<close>

text \<open>
  C5. When the button of the Detailed Audit page is pressed with no image uploaded or with
  an empty appliance text, the page shows one error message and nothing else happens: no
  request is sent to the remote model, and the history file is not touched.
\<close>

theorem detailed_audit_validation:
  assumes "uploaded = None \<or> appliance_info = []"
  shows "detailed_audit_page api_key model now1 now2 uploaded appliance_info True w
           = (([StError (if uploaded = None then ''Please upload a bill image.''
                         else ''Please enter appliance information.'')], None), w)
       \<and> requests (snd (detailed_audit_page api_key model now1 now2 uploaded appliance_info True w))
           = requests w"
  using assms
  by (cases uploaded) (auto simp: detailed_audit_page_def)

theorem detailed_audit_validation_witness:
  "detailed_audit_page ''key'' answering_model noon later (Some ''img'') [] True fresh_world
     = (([StError ''Please enter appliance information.''], None), fresh_world)
   \<and> requests (snd (detailed_audit_page ''key'' answering_model noon later (Some ''img'') [] True
        fresh_world)) = []
   \<and> detailed_audit_page ''key'' answering_model noon later None ''1 fridge'' True fresh_world
     = (([StError ''Please upload a bill image.''], None), fresh_world)
   \<and> requests (snd (detailed_audit_page ''key'' answering_model noon later None ''1 fridge'' True
        fresh_world)) = []"
proof -
  have h1: "Some ''img'' = None \<or> ([] :: string) = []" by simp
  have h2: "(None :: image option) = None \<or> ''1 fridge'' = []" by simp
  show ?thesis
    using detailed_audit_validation [OF h1, of "''key''" answering_model noon later fresh_world]
      detailed_audit_validation [OF h2, of "''key''" answering_model noon later fresh_world]
    by (simp add: fresh_world_def)
qed

lemma persisted_as_save:
  assumes "load_history st = JArr xs"
  shows "persisted_as ty result xs
           (snd (save_report_to_history now1 now2
                  [''type'' \<mapsto> JStr ty, ''summary'' \<mapsto> s, ''full_report'' \<mapsto> JStr result] st))"
  using assms
  by (cases st)
     (simp_all add: load_history_def save_report_to_history_def persisted_as_def report_entry_def
        obj_get_def dict_get_def)

text \<open>
  C1, as stated, fails: with a remote model whose call raises, both pages show the error
  text, store it as the report of a new history entry, and announce that the report was
  saved.
\<close>

theorem failed_audit_persisted_counterexample:
  "fst (analyze_image_with_gemini ''key'' failing_model ''img'' simple_prompt False None [])
     = ''Error during analysis: 503 service unavailable''
   \<and> history_file (snd (simple_audit_page ''key'' failing_model noon noon (Some ''img'') True fresh_world))
     = Stored (JArr [JObj
         [(''id'', JStr ''20240307120005''),
          (''date'', JStr ''2024-03-07 12:00''),
          (''type'', JStr ''Simple Audit''),
          (''summary'', JStr ''Simple Bill Analysis''),
          (''full_report'', JStr ''Error during analysis: 503 service unavailable'')]])
   \<and> history_file (snd (detailed_audit_page ''key'' failing_model noon noon (Some ''img'') ''1 fridge''
        True fresh_world))
     = Stored (JArr [JObj
         [(''id'', JStr ''20240307120005''),
          (''date'', JStr ''2024-03-07 12:00''),
          (''type'', JStr ''Detailed Audit''),
          (''summary'', JStr ''Detailed Analysis with Appliances''),
          (''full_report'', JStr ''Error during analysis: 503 service unavailable'')]])
   \<and> last (fst (fst (simple_audit_page ''key'' failing_model noon noon (Some ''img'') True fresh_world)))
     = StSuccess ''Report saved to History!''"
proof -
  have a: "analyze_image_with_gemini ''key'' failing_model ''img'' simple_prompt False None []
             = (''Error during analysis: 503 service unavailable'', [(simple_request, ''img'')])"
    by (simp add: analyze_image_with_gemini_def full_prompt_simple failing_model_def)
  have b: "analyze_image_with_gemini ''key'' failing_model ''img'' detailed_prompt True
             (Some ''1 fridge'') []
             = (''Error during analysis: 503 service unavailable'',
                [(detailed_request ''1 fridge'', ''img'')])"
    by (simp add: analyze_image_with_gemini_def full_prompt_detailed failing_model_def)
  have s: "history_file (snd (simple_audit_page ''key'' failing_model noon noon (Some ''img'') True
             fresh_world))
     = Stored (JArr [JObj
         [(''id'', JStr ''20240307120005''),
          (''date'', JStr ''2024-03-07 12:00''),
          (''type'', JStr ''Simple Audit''),
          (''summary'', JStr ''Simple Bill Analysis''),
          (''full_report'', JStr ''Error during analysis: 503 service unavailable'')]])"
    by (simp add: simple_page_world fresh_world_def a save_report_to_history_def report_entry_def
        dict_get_def strftime_id_noon strftime_date_noon)
  have d: "history_file (snd (detailed_audit_page ''key'' failing_model noon noon (Some ''img'')
             ''1 fridge'' True fresh_world))
     = Stored (JArr [JObj
         [(''id'', JStr ''20240307120005''),
          (''date'', JStr ''2024-03-07 12:00''),
          (''type'', JStr ''Detailed Audit''),
          (''summary'', JStr ''Detailed Analysis with Appliances''),
          (''full_report'', JStr ''Error during analysis: 503 service unavailable'')]])"
    by (simp add: detailed_page_world fresh_world_def b save_report_to_history_def report_entry_def
        dict_get_def strftime_id_noon strftime_date_noon)
  have m: "last (fst (fst (simple_audit_page ''key'' failing_model noon noon (Some ''img'') True
             fresh_world))) = StSuccess ''Report saved to History!''"
    by (simp add: simple_audit_page_def fresh_world_def a save_report_to_history_def)
  from a s d m show ?thesis by simp
qed

text \<open>
  C1, amended. When the history file loads as a sequence, each audit flow persists its
  result text, as the report of a new first entry of the flow's type, exactly when the
  text is not empty, and leaves the file alone when it is empty. The text that
  \<open>analyze_image_with_gemini\<close> returns for a failed remote call is the error marker followed
  by the exception's text; it is not empty, and it is persisted like any other result.
\<close>

theorem audit_result_persisted_when_nonempty:
  assumes "load_history (history_file w) = JArr xs"
  shows "(let result = fst (analyze_image_with_gemini api_key model img simple_prompt False None
                              (requests w));
              st' = history_file (snd (simple_audit_page api_key model now1 now2 (Some img) True w))
          in if result = [] then st' = history_file w
             else persisted_as ''Simple Audit'' result xs st')
       \<and> (appliance_info \<noteq> [] \<longrightarrow>
           (let result = fst (analyze_image_with_gemini api_key model img detailed_prompt True
                                (Some appliance_info) (requests w));
                st' = history_file (snd (detailed_audit_page api_key model now1 now2 (Some img)
                                           appliance_info True w))
            in if result = [] then st' = history_file w
               else persisted_as ''Detailed Audit'' result xs st'))
       \<and> (api_key \<noteq> [] \<longrightarrow> model simple_request img = Inl e \<longrightarrow>
           persisted_as ''Simple Audit'' (''Error during analysis: '' @ e) xs
             (history_file (snd (simple_audit_page api_key model now1 now2 (Some img) True w))))
       \<and> (api_key \<noteq> [] \<longrightarrow> appliance_info \<noteq> [] \<longrightarrow>
           model (detailed_request appliance_info) img = Inl e \<longrightarrow>
           persisted_as ''Detailed Audit'' (''Error during analysis: '' @ e) xs
             (history_file (snd (detailed_audit_page api_key model now1 now2 (Some img)
                                   appliance_info True w))))"
proof -
  note p = persisted_as_save [OF assms]
  have s: "let result = fst (analyze_image_with_gemini api_key model img simple_prompt False None
                              (requests w));
              st' = history_file (snd (simple_audit_page api_key model now1 now2 (Some img) True w))
          in if result = [] then st' = history_file w
             else persisted_as ''Simple Audit'' result xs st'"
    by (simp add: simple_page_world Let_def p)
  have d: "let result = fst (analyze_image_with_gemini api_key model img detailed_prompt True
                                (Some appliance_info) (requests w));
                st' = history_file (snd (detailed_audit_page api_key model now1 now2 (Some img)
                                           appliance_info True w))
            in if result = [] then st' = history_file w
               else persisted_as ''Detailed Audit'' result xs st'"
    if "appliance_info \<noteq> []"
    using that by (simp add: detailed_page_world Let_def p)
  have se: "persisted_as ''Simple Audit'' (''Error during analysis: '' @ e) xs
             (history_file (snd (simple_audit_page api_key model now1 now2 (Some img) True w)))"
    if "api_key \<noteq> []" and "model simple_request img = Inl e"
    using that(2) analyze_text [OF that(1) full_prompt_simple, of model img None "requests w"]
    by (simp add: simple_page_world Let_def p)
  have de: "persisted_as ''Detailed Audit'' (''Error during analysis: '' @ e) xs
             (history_file (snd (detailed_audit_page api_key model now1 now2 (Some img)
                                   appliance_info True w)))"
    if "api_key \<noteq> []" and "appliance_info \<noteq> []"
      and "model (detailed_request appliance_info) img = Inl e"
    using that(2,3)
      analyze_text [OF that(1) full_prompt_detailed, of model img appliance_info "requests w"]
    by (simp add: detailed_page_world Let_def p)
  from s d se de show ?thesis by blast
qed

theorem audit_result_persisted_when_nonempty_witness:
  "load_history (history_file fresh_world) = JArr []
   \<and> ''key'' \<noteq> [] \<and> ''1 fridge'' \<noteq> []
   \<and> failing_model simple_request ''img'' = Inl ''503 service unavailable''
   \<and> failing_model (detailed_request ''1 fridge'') ''img'' = Inl ''503 service unavailable''
   \<and> persisted_as ''Simple Audit'' ''Error during analysis: 503 service unavailable'' []
       (history_file (snd (simple_audit_page ''key'' failing_model noon later (Some ''img'') True
          fresh_world)))
   \<and> persisted_as ''Detailed Audit'' ''Error during analysis: 503 service unavailable'' []
       (history_file (snd (detailed_audit_page ''key'' failing_model noon later (Some ''img'')
          ''1 fridge'' True fresh_world)))"
proof -
  have h: "load_history (history_file fresh_world) = JArr []"
    by (simp add: fresh_world_def load_history_def)
  show ?thesis
    using h audit_result_persisted_when_nonempty
      [OF h, of "''key''" failing_model "''img''" noon later "''1 fridge''"
         "''503 service unavailable''"]
    by (simp add: failing_model_def)
qed

end
